theory Spec2Isabelle
  imports Complex_Main
begin

section \<open>Values of the prediction endpoint\<close>

text \<open>
  The endpoint \<open>predict\<close> of \<open>app.py\<close> works on Python ints (unbounded, \<open>int\<close>),
  strings and floating-point numbers. A float is given by its exact value: a rational
  number, one of the two infinities, or NaN. Comparisons, \<open>isnan\<close>, \<open>isfinite\<close> and
  \<open>abs\<close> are exact on floats and follow IEEE 754. Sums and quotients of floats are
  rounded and may overflow; they are not computed here but taken from the deployment
  (see \<open>float64_sum\<close> and \<open>float64_div\<close> below).
\<close>

datatype pyfloat = Num rat | PosInf | NegInf | NaN

fun isnan :: "pyfloat \<Rightarrow> bool" where
  "isnan NaN = True"
| "isnan _ = False"

fun isfinite :: "pyfloat \<Rightarrow> bool" where
  "isfinite (Num _) = True"
| "isfinite _ = False"

text \<open>\<open>x < y\<close> and \<open>x <= y\<close> on floats: every comparison with NaN is false.\<close>

fun flt_less :: "pyfloat \<Rightarrow> pyfloat \<Rightarrow> bool" where
  "flt_less NaN _ = False"
| "flt_less _ NaN = False"
| "flt_less (Num a) (Num b) = (a < b)"
| "flt_less _ NegInf = False"
| "flt_less NegInf _ = True"
| "flt_less PosInf _ = False"
| "flt_less (Num _) PosInf = True"

fun flt_le :: "pyfloat \<Rightarrow> pyfloat \<Rightarrow> bool" where
  "flt_le NaN _ = False"
| "flt_le _ NaN = False"
| "flt_le (Num a) (Num b) = (a \<le> b)"
| "flt_le NegInf _ = True"
| "flt_le _ NegInf = False"
| "flt_le _ PosInf = True"
| "flt_le PosInf _ = False"

fun flt_abs :: "pyfloat \<Rightarrow> pyfloat" where
  "flt_abs (Num a) = Num \<bar>a\<bar>"
| "flt_abs NegInf = PosInf"
| "flt_abs x = x"


subsection \<open>Text\<close>

definition digit :: "nat \<Rightarrow> char" where
  "digit d = ''0123456789'' ! (d mod 10)"

fun str_nat :: "nat \<Rightarrow> string" where
  "str_nat n = (if n < 10 then [digit n] else str_nat (n div 10) @ [digit (n mod 10)])"

declare str_nat.simps [simp del]

definition str_int :: "int \<Rightarrow> string" where
  "str_int i = (if i < 0 then ''-'' @ str_nat (nat (- i)) else str_nat (nat i))"

text \<open>\<open>sep.join(xs)\<close>\<close>

fun join :: "string \<Rightarrow> string list \<Rightarrow> string" where
  "join sep [] = []"
| "join sep [x] = x"
| "join sep (x # y # ys) = x @ sep @ join sep (y # ys)"

text \<open>
  The format \<open>:.2f\<close>: the value rounded to two decimals (ties to the even digit, on the
  exact value), with at least one digit before the point.
\<close>

definition round_half_even :: "rat \<Rightarrow> int" where
  "round_half_even q =
     (let f = \<lfloor>q\<rfloor>; d = q - of_int f
      in if d < 1 / 2 then f
         else if 1 / 2 < d then f + 1
         else if even f then f else f + 1)"

fun format_2f :: "pyfloat \<Rightarrow> string" where
  "format_2f (Num q) =
     (let n = nat (round_half_even (\<bar>q\<bar> * 100))
      in (if q < 0 then ''-'' else []) @ str_nat (n div 100) @ ''.'' @
         [digit (n div 10), digit n])"
| "format_2f PosInf = ''inf''"
| "format_2f NegInf = ''-inf''"
| "format_2f NaN = ''nan''"

section \<open>Requests, exceptions and the loaded artefacts\<close>

text \<open>The input schema \<open>RealEstateInput\<close>.\<close>

record RealEstateInput =
  city :: string
  property_type :: string
  furnished :: string
  delivery_term :: string
  bedrooms :: int
  bathrooms :: int
  area :: pyfloat
  level :: int

text \<open>
  The exceptions that can travel through the body of \<open>predict\<close>, each with its
  message: a \<open>ValueError\<close> (or one of its subclasses); FastAPI's \<open>HTTPException\<close> with
  its status code and detail, which derives from \<open>Exception\<close> and not from
  \<open>ValueError\<close>; any other exception that derives from \<open>Exception\<close>; and an exception
  that derives from \<open>BaseException\<close> only, such as \<open>KeyboardInterrupt\<close>, \<open>SystemExit\<close>
  or \<open>asyncio.CancelledError\<close>.
\<close>

datatype exn =
  ValueError string
| HTTPException nat string
| OtherError string
| BaseExceptionOnly string

text \<open>
  A one-row data frame: its columns in order, each with its name and its single value.
  The categorical codes and the counts are integers, the area and the price per square
  metre are floats.
\<close>

datatype cell = IntCell int | FloatCell pyfloat

type_synonym dataframe = "(string \<times> cell) list"

text \<open>
  What is loaded at start-up and what the libraries provide. \<open>label_encoders\<close> maps a
  column name to the \<open>classes_\<close> of its encoder; \<open>df_cleaned\<close> holds the rows of
  \<open>cleaned_data.csv\<close> (encoded city, price per square metre). The trained model and
  the SHAP explainer are opaque: \<open>model_predict\<close> is \<open>model.predict(input_df)[0]\<close>,
  \<open>shap_values\<close> is the row \<open>TreeExplainer(model).shap_values(input_df)[0]\<close>, and
  \<open>save_waterfall\<close> stands for drawing the plot and saving it as a JPEG under a new
  UUID, which it returns; each of them may raise. \<open>http_exception_str\<close> is
  \<open>str\<close> of an \<open>HTTPException\<close>.

  Floating-point arithmetic and the printing of values belong to the libraries as well:
  \<open>float64_sum\<close> is the float64 sum of a sequence as the library adds it up (the order
  of the additions, the rounding and the overflow are the library's),
  \<open>float64_div x n\<close> is the float64 quotient of \<open>x\<close> by the count \<open>n\<close>, and
  \<open>value_str df v\<close> is the text an f-string prints for the value \<open>v\<close> of the row
  \<open>df.iloc[0]\<close> (pandas brings the values of the row to a common type first, so an
  integer of a frame with float columns prints as a float).
\<close>

record globals =
  label_encoders :: "string \<rightharpoonup> string list"
  df_cleaned :: "(int \<times> pyfloat) list"
  model_predict :: "dataframe \<Rightarrow> exn + pyfloat"
  shap_values :: "dataframe \<Rightarrow> exn + pyfloat list"
  save_waterfall :: "pyfloat list \<Rightarrow> dataframe \<Rightarrow> exn + string"
  http_exception_str :: "nat \<Rightarrow> string \<Rightarrow> string"
  float64_sum :: "pyfloat list \<Rightarrow> pyfloat"
  float64_div :: "pyfloat \<Rightarrow> nat \<Rightarrow> pyfloat"
  value_str :: "dataframe \<Rightarrow> cell \<Rightarrow> string"

text \<open>The calls that leave the endpoint, in the order they are made.\<close>

datatype event = ModelPredict dataframe | ShapValues dataframe | SaveWaterfall string

record response =
  predicted_price :: pyfloat
  image_url :: string
  factors_description :: string


section \<open>Aggregates of a dataset column\<close>

text \<open>
  \<open>Series.mean()\<close> of pandas skips missing values (NaN) by default: it puts zero in
  their place, adds the column up and divides by the number of values present; with
  no value present the mean is NaN.
\<close>

definition notna :: "pyfloat list \<Rightarrow> pyfloat list" where
  "notna xs = filter (\<lambda>x. \<not> isnan x) xs"

definition fillna0 :: "pyfloat list \<Rightarrow> pyfloat list" where
  "fillna0 xs = map (\<lambda>x. if isnan x then Num 0 else x) xs"

definition series_mean :: "globals \<Rightarrow> pyfloat list \<Rightarrow> pyfloat" where
  "series_mean G xs =
     (let count = length (notna xs)
      in if count > 0 then float64_div G (float64_sum G (fillna0 xs)) count else NaN)"

text \<open>
  \<open>Series.median()\<close> skips NaN as well: the values present are put in order, and the
  median is the mean of the middle one (for an odd count) or of the two middle ones
  (for an even count); with no value present it is NaN.
\<close>

fun flt_insort :: "pyfloat \<Rightarrow> pyfloat list \<Rightarrow> pyfloat list" where
  "flt_insort x [] = [x]"
| "flt_insort x (y # ys) = (if flt_le x y then x # y # ys else y # flt_insort x ys)"

definition flt_sort :: "pyfloat list \<Rightarrow> pyfloat list" where
  "flt_sort xs = foldr flt_insort xs []"

definition middle_values :: "pyfloat list \<Rightarrow> pyfloat list" where
  "middle_values vs =
     (let n = length vs
      in if odd n then [vs ! (n div 2)] else [vs ! (n div 2 - 1), vs ! (n div 2)])"

definition series_median :: "globals \<Rightarrow> pyfloat list \<Rightarrow> pyfloat" where
  "series_median G xs =
     (let vs = flt_sort (notna xs)
      in if vs = [] then NaN
         else float64_div G (float64_sum G (middle_values vs)) (length (middle_values vs)))"

section \<open>The endpoint\<close>

text \<open>Sequencing of steps that may raise: the first exception ends the body.\<close>

definition bind_exn :: "exn + 'a \<Rightarrow> ('a \<Rightarrow> exn + 'b) \<Rightarrow> exn + 'b" where
  "bind_exn m f = (case m of Inl e \<Rightarrow> Inl e | Inr x \<Rightarrow> f x)"

subsection \<open>Validation of the numerical inputs\<close>

definition validate :: "RealEstateInput \<Rightarrow> exn + unit" where
  "validate input_data =
     (if bedrooms input_data < 0 then
        Inl (HTTPException 400 ''Bedrooms must be non-negative'')
      else if bathrooms input_data < 0 then
        Inl (HTTPException 400 ''Bathrooms must be non-negative'')
      else if flt_le (area input_data) (Num 0) then
        Inl (HTTPException 400 ''Area must be positive'')
      else if level input_data < 0 then
        Inl (HTTPException 400 ''Level must be non-negative'')
      else Inr ())"

subsection \<open>Encoding of the categorical inputs\<close>

definition categorical_inputs :: "RealEstateInput \<Rightarrow> (string \<times> string) list" where
  "categorical_inputs input_data =
     [(''City'', city input_data),
      (''Type'', property_type input_data),
      (''Furnished'', furnished input_data),
      (''Delivery_Term'', delivery_term input_data)]"

text \<open>
  \<open>LabelEncoder.transform([value])[0]\<close>: the position of the value among the classes
  (which scikit-learn keeps sorted and without duplicates), a \<open>ValueError\<close> for a value
  that is not one of them. The loop below tests membership first, so that branch is
  never taken there; its message is shortened.
\<close>

fun index_of :: "string list \<Rightarrow> string \<Rightarrow> nat option" where
  "index_of [] v = None"
| "index_of (c # cs) v = (if c = v then Some 0 else map_option Suc (index_of cs v))"

definition transform :: "string list \<Rightarrow> string \<Rightarrow> exn + int" where
  "transform classes v =
     (case index_of classes v of
        None \<Rightarrow> Inl (ValueError (''y contains previously unseen labels: '' @ v))
      | Some i \<Rightarrow> Inr (int i))"

definition invalid_detail :: "string \<Rightarrow> string \<Rightarrow> string list \<Rightarrow> string" where
  "invalid_detail col v valid_options =
     ''Invalid '' @ col @ '': '' @ [CHR 0x27] @ v @ [CHR 0x27] @
     ''. Valid options: '' @ join '', '' valid_options"

text \<open>The loop over \<open>categorical_inputs.items()\<close>, filling \<open>encoded_inputs\<close>.\<close>

fun encode_loop ::
  "globals \<Rightarrow> (string \<times> string) list \<Rightarrow> (string \<rightharpoonup> int) \<Rightarrow> exn + (string \<rightharpoonup> int)"
where
  "encode_loop G [] encoded_inputs = Inr encoded_inputs"
| "encode_loop G ((col, v) # rest) encoded_inputs =
     (case label_encoders G col of
        None \<Rightarrow> Inl (HTTPException 500 (''LabelEncoder for '' @ col @ '' not found''))
      | Some valid_options \<Rightarrow>
          if v \<notin> set valid_options then
            Inl (HTTPException 400 (invalid_detail col v valid_options))
          else
            (case transform valid_options v of
               Inl e \<Rightarrow> Inl e
             | Inr code \<Rightarrow> encode_loop G rest (encoded_inputs(col \<mapsto> code))))"

text \<open>\<open>encoded_inputs[key]\<close>: a \<open>KeyError\<close> for a missing key.\<close>

definition getitem :: "(string \<rightharpoonup> int) \<Rightarrow> string \<Rightarrow> exn + int" where
  "getitem d k =
     (case d k of
        None \<Rightarrow> Inl (OtherError ([CHR 0x27] @ k @ [CHR 0x27]))
      | Some c \<Rightarrow> Inr c)"

subsection \<open>The price per square metre of the city\<close>

definition no_data_detail :: "int \<Rightarrow> string \<Rightarrow> string list \<Rightarrow> string" where
  "no_data_detail city_encoded decoded valid_cities =
     ''No data for city code '' @ str_int city_encoded @ '' (decoded: '' @ decoded @
     ''). Valid cities: '' @ join '', '' valid_cities"

definition city_data :: "globals \<Rightarrow> int \<Rightarrow> (int \<times> pyfloat) list" where
  "city_data G city_encoded = filter (\<lambda>row. fst row = city_encoded) (df_cleaned G)"

definition city_price_per_sqm :: "globals \<Rightarrow> RealEstateInput \<Rightarrow> int \<Rightarrow> exn + pyfloat" where
  "city_price_per_sqm G input_data city_encoded =
     (if city_data G city_encoded = [] then
        (case label_encoders G ''City'' of
           None \<Rightarrow> Inl (OtherError ([CHR 0x27] @ ''City'' @ [CHR 0x27]))
         | Some valid_cities \<Rightarrow>
             Inl (HTTPException 400
                    (no_data_detail city_encoded (city input_data) valid_cities)))
      else
        (let city_avg_price_per_sqm = series_mean G (map snd (city_data G city_encoded))
         in if isnan city_avg_price_per_sqm \<or> \<not> isfinite city_avg_price_per_sqm then
              (let default_price_per_sqm = series_median G (map snd (df_cleaned G))
               in if isnan default_price_per_sqm \<or> \<not> isfinite default_price_per_sqm then
                    Inl (HTTPException 500
                           ''Cannot compute Price_per_sqm: invalid data in cleaned_data.csv'')
                  else Inr default_price_per_sqm)
            else Inr city_avg_price_per_sqm))"

subsection \<open>The input data frame\<close>

definition input_df_of ::
  "RealEstateInput \<Rightarrow> int \<Rightarrow> int \<Rightarrow> int \<Rightarrow> int \<Rightarrow> pyfloat \<Rightarrow> dataframe" where
  "input_df_of input_data type_code furnished_code delivery_code city_code price =
     [(''Type'', IntCell type_code),
      (''Bedrooms'', IntCell (bedrooms input_data)),
      (''Bathrooms'', IntCell (bathrooms input_data)),
      (''Area'', FloatCell (area input_data)),
      (''Furnished'', IntCell furnished_code),
      (''Level'', IntCell (level input_data)),
      (''Delivery_Term'', IntCell delivery_code),
      (''City'', IntCell city_code),
      (''Price_per_sqm'', FloatCell price)]"

text \<open>Lines 50 to 110 of \<open>app.py\<close>: everything before the model is called.\<close>

definition assemble :: "globals \<Rightarrow> RealEstateInput \<Rightarrow> exn + dataframe" where
  "assemble G input_data =
     bind_exn (validate input_data) (\<lambda>_.
     bind_exn (encode_loop G (categorical_inputs input_data) Map.empty) (\<lambda>encoded_inputs.
     bind_exn (getitem encoded_inputs ''City'') (\<lambda>city_encoded.
     bind_exn (city_price_per_sqm G input_data city_encoded) (\<lambda>price.
     bind_exn (getitem encoded_inputs ''Type'') (\<lambda>type_code.
     bind_exn (getitem encoded_inputs ''Furnished'') (\<lambda>furnished_code.
     bind_exn (getitem encoded_inputs ''Delivery_Term'') (\<lambda>delivery_code.
     bind_exn (getitem encoded_inputs ''City'') (\<lambda>city_code.
     Inr (input_df_of input_data type_code furnished_code delivery_code city_code
            price)))))))))"

subsection \<open>The textual description\<close>

text \<open>
  \<open>input_df.iloc[0]\<close>: the row as one series, a value for each column. The change of
  type pandas makes shows only when a value is printed, which is \<open>value_str\<close>.
\<close>

definition iloc0 :: "dataframe \<Rightarrow> cell list" where
  "iloc0 df = map snd df"

definition direction :: "pyfloat \<Rightarrow> string" where
  "direction shap_value = (if flt_less (Num 0) shap_value then ''increased'' else ''decreased'')"

definition factor_line :: "globals \<Rightarrow> dataframe \<Rightarrow> string \<times> pyfloat \<times> cell \<Rightarrow> string" where
  "factor_line G input_df t =
     (case t of (feature_name, shap_value, feature_value) \<Rightarrow>
        ''- '' @ feature_name @ '': Value = '' @ value_str G input_df feature_value @ '', '' @
        direction shap_value @ '' price by '' @ format_2f (flt_abs shap_value) @
        '' units.'' @ [CHR 0x0A])"

definition zip3 :: "'a list \<Rightarrow> 'b list \<Rightarrow> 'c list \<Rightarrow> ('a \<times> 'b \<times> 'c) list" where
  "zip3 xs ys zs = zip xs (zip ys zs)"

definition describe :: "globals \<Rightarrow> dataframe \<Rightarrow> pyfloat list \<Rightarrow> string" where
  "describe G input_df sv =
     foldl (\<lambda>description t. description @ factor_line G input_df t)
       (''Factors influencing the predicted price:'' @ [CHR 0x0A])
       (zip3 (map fst input_df) sv (iloc0 input_df))"

subsection \<open>The body of \<open>predict\<close> and its exception handlers\<close>

definition negative_price_detail :: string where
  "negative_price_detail = ''Predicted price is negative, which is invalid''"

definition predict_body :: "globals \<Rightarrow> RealEstateInput \<Rightarrow> event list \<times> (exn + response)" where
  "predict_body G input_data =
     (case assemble G input_data of
        Inl e \<Rightarrow> ([], Inl e)
      | Inr input_df \<Rightarrow>
     (case model_predict G input_df of
        Inl e \<Rightarrow> ([ModelPredict input_df], Inl e)
      | Inr price \<Rightarrow>
     if flt_less price (Num 0) then
       ([ModelPredict input_df], Inl (HTTPException 500 negative_price_detail))
     else
     (case shap_values G input_df of
        Inl e \<Rightarrow> ([ModelPredict input_df, ShapValues input_df], Inl e)
      | Inr sv \<Rightarrow>
     (case save_waterfall G sv input_df of
        Inl e \<Rightarrow> ([ModelPredict input_df, ShapValues input_df], Inl e)
      | Inr unique_id \<Rightarrow>
          ([ModelPredict input_df, ShapValues input_df, SaveWaterfall unique_id],
           Inr \<lparr>predicted_price = price,
                image_url = ''/static/shap_explanation_'' @ unique_id @ ''.jpeg'',
                factors_description = describe G input_df sv\<rparr>)))))"

text \<open>\<open>str(e)\<close>\<close>

fun exn_str :: "globals \<Rightarrow> exn \<Rightarrow> string" where
  "exn_str G (ValueError m) = m"
| "exn_str G (HTTPException status detail) = http_exception_str G status detail"
| "exn_str G (OtherError m) = m"
| "exn_str G (BaseExceptionOnly m) = m"

text \<open>
  The two handlers that close the \<open>try\<close>: \<open>except ValueError\<close> first, then
  \<open>except Exception\<close>, which takes every other exception that derives from
  \<open>Exception\<close>, the \<open>HTTPException\<close>s raised in the body among them. An exception that
  derives from \<open>BaseException\<close> only matches neither and leaves \<open>predict\<close> as it is.
\<close>

fun handlers :: "globals \<Rightarrow> exn \<Rightarrow> exn" where
  "handlers G (ValueError m) = HTTPException 400 (''Input error: '' @ m)"
| "handlers G (BaseExceptionOnly m) = BaseExceptionOnly m"
| "handlers G e = HTTPException 500 (''Prediction failed: '' @ exn_str G e)"

definition predict :: "globals \<Rightarrow> RealEstateInput \<Rightarrow> event list \<times> (exn + response)" where
  "predict G input_data =
     (case predict_body G input_data of
        (calls, Inl e) \<Rightarrow> (calls, Inl (handlers G e))
      | (calls, Inr r) \<Rightarrow> (calls, Inr r))"


section \<open>Vocabulary of the properties\<close>

text \<open>
  \<open>encoded_as G col v code\<close>: the deployment has an encoder for the column, the value
  is one of its classes and \<open>code\<close> is what \<open>transform\<close> returns for it.
\<close>

definition encoded_as :: "globals \<Rightarrow> string \<Rightarrow> string \<Rightarrow> int \<Rightarrow> bool" where
  "encoded_as G col v code =
     (case label_encoders G col of
        None \<Rightarrow> False
      | Some valid_options \<Rightarrow> v \<in> set valid_options \<and> transform valid_options v = Inr code)"

text \<open>The column order the model was trained on.\<close>

definition feature_columns :: "string list" where
  "feature_columns =
     [''Type'', ''Bedrooms'', ''Bathrooms'', ''Area'', ''Furnished'', ''Level'',
      ''Delivery_Term'', ''City'', ''Price_per_sqm'']"

text \<open>The calls of a trace that hand a data frame to the model or to the explainer.\<close>

fun frames_used :: "event list \<Rightarrow> dataframe list" where
  "frames_used [] = []"
| "frames_used (ModelPredict df # es) = df # frames_used es"
| "frames_used (ShapValues df # es) = df # frames_used es"
| "frames_used (SaveWaterfall u # es) = frames_used es"


text \<open>How many values of a list lie strictly below, and strictly above, a given one.\<close>

definition count_below :: "pyfloat \<Rightarrow> pyfloat list \<Rightarrow> nat" where
  "count_below m vs = length (filter (\<lambda>x. flt_less x m) vs)"

definition count_above :: "pyfloat \<Rightarrow> pyfloat list \<Rightarrow> nat" where
  "count_above m vs = length (filter (\<lambda>x. flt_less m x) vs)"





section \<open>Sample deployments\<close>

text \<open>
  Arithmetic without rounding. On the values of the samples below (whole numbers and
  halves far below \<open>2^53\<close>, the infinities and NaN) the float64 sum and quotient are
  exact, so there they are these.
\<close>

fun exact_add :: "pyfloat \<Rightarrow> pyfloat \<Rightarrow> pyfloat" where
  "exact_add NaN _ = NaN"
| "exact_add _ NaN = NaN"
| "exact_add (Num a) (Num b) = Num (a + b)"
| "exact_add PosInf NegInf = NaN"
| "exact_add NegInf PosInf = NaN"
| "exact_add PosInf _ = PosInf"
| "exact_add _ PosInf = PosInf"
| "exact_add NegInf _ = NegInf"
| "exact_add _ NegInf = NegInf"

definition exact_sum :: "pyfloat list \<Rightarrow> pyfloat" where
  "exact_sum xs = foldl exact_add (Num 0) xs"

fun exact_div :: "pyfloat \<Rightarrow> nat \<Rightarrow> pyfloat" where
  "exact_div (Num a) n = Num (a / of_nat n)"
| "exact_div x n = x"

text \<open>
  The text of a value of the sample rows. Their frames have float columns, so every
  value prints as a float, and a whole number below \<open>2^53\<close> prints as the integer
  followed by \<open>.0\<close>. The samples print no other finite value.
\<close>

fun sample_value_str :: "dataframe \<Rightarrow> cell \<Rightarrow> string" where
  "sample_value_str df (IntCell i) = str_int i @ ''.0''"
| "sample_value_str df (FloatCell (Num q)) =
     (if of_int \<lfloor>q\<rfloor> = q then str_int \<lfloor>q\<rfloor> @ ''.0'' else [])"
| "sample_value_str df (FloatCell PosInf) = ''inf''"
| "sample_value_str df (FloatCell NegInf) = ''-inf''"
| "sample_value_str df (FloatCell NaN) = ''nan''"

text \<open>
  A small deployment on which the theorems below are exercised: three cities, of which
  Giza has no row in the dataset and Cairo has two rows with a row of Alexandria between
  them, a model that always answers 1000 and an explainer that returns one attribution
  per column. \<open>str\<close> of an \<open>HTTPException\<close> is the one of Starlette: status code,
  colon, detail.
\<close>

definition sample_encoders :: "string \<rightharpoonup> string list" where
  "sample_encoders =
     [''City'' \<mapsto> [''Alexandria'', ''Cairo'', ''Giza''],
      ''Type'' \<mapsto> [''Apartment'', ''Villa''],
      ''Furnished'' \<mapsto> [''No'', ''Yes''],
      ''Delivery_Term'' \<mapsto> [''Finished'', ''Ready'']]"

definition sample_shap :: "pyfloat list" where
  "sample_shap =
     [Num 12, Num (-3), Num 0, Num (1 / 8), Num (-5 / 2), Num 7, Num 1, Num (-40), Num 250]"

definition sample_globals :: globals where
  "sample_globals =
     \<lparr>label_encoders = sample_encoders,
      df_cleaned = [(1, Num 20), (0, Num 10), (1, Num 30)],
      model_predict = (\<lambda>df. Inr (Num 1000)),
      shap_values = (\<lambda>df. Inr sample_shap),
      save_waterfall = (\<lambda>sv df. Inr ''0f8fad5b''),
      http_exception_str = (\<lambda>status detail. str_nat status @ '': '' @ detail),
      float64_sum = exact_sum,
      float64_div = exact_div,
      value_str = sample_value_str\<rparr>"

definition sample_input :: RealEstateInput where
  "sample_input =
     \<lparr>city = ''Cairo'', property_type = ''Apartment'', furnished = ''Yes'',
      delivery_term = ''Ready'', bedrooms = 3, bathrooms = 2, area = Num 150, level = 4\<rparr>"

text \<open>
  Variants of the sample: a model that raises or answers a given price, an explainer
  that returns given attributions, and other datasets.
\<close>

definition model_raising :: "exn \<Rightarrow> globals" where
  "model_raising e = sample_globals\<lparr>model_predict := (\<lambda>df. Inl e)\<rparr>"

definition model_answering :: "pyfloat \<Rightarrow> globals" where
  "model_answering p = sample_globals\<lparr>model_predict := (\<lambda>df. Inr p)\<rparr>"


definition with_dataset :: "(int \<times> pyfloat) list \<Rightarrow> globals" where
  "with_dataset rows = sample_globals\<lparr>df_cleaned := rows\<rparr>"

definition sample_df :: "pyfloat \<Rightarrow> dataframe" where
  "sample_df price = input_df_of sample_input 0 1 1 1 price"


section \<open>How a request travels through the pipeline\<close>

text \<open>
  An exception raised before the model is called leaves no call behind and goes through
  the handlers.
\<close>

lemma predict_assemble_Inl:
  "assemble G r = Inl e \<Longrightarrow> predict G r = ([], Inl (handlers G e))"
  by (simp add: predict_def predict_body_def)

lemma assemble_validate_Inl:
  "validate r = Inl e \<Longrightarrow> assemble G r = Inl e"
  by (simp add: assemble_def bind_exn_def)

lemma encode_loop_Cons_Inr:
  assumes "encode_loop G ((col, v) # rest) e = Inr enc"
  shows "\<exists>code. encoded_as G col v code \<and> encode_loop G rest (e(col \<mapsto> code)) = Inr enc"
  using assms by (auto simp: encoded_as_def split: option.splits if_splits sum.splits)

lemma encode_loop_Cons_encoded:
  assumes "encoded_as G col v code"
  shows "encode_loop G ((col, v) # rest) e = encode_loop G rest (e(col \<mapsto> code))"
  using assms by (auto simp: encoded_as_def split: option.splits)

lemma encode_categorical_inputs:
  assumes "encoded_as G ''City'' (city r) cc" and "encoded_as G ''Type'' (property_type r) ct"
    and "encoded_as G ''Furnished'' (furnished r) cf"
    and "encoded_as G ''Delivery_Term'' (delivery_term r) cd"
  shows "encode_loop G (categorical_inputs r) Map.empty =
           Inr [''City'' \<mapsto> cc, ''Type'' \<mapsto> ct, ''Furnished'' \<mapsto> cf, ''Delivery_Term'' \<mapsto> cd]"
  unfolding categorical_inputs_def
  by (simp only: encode_loop_Cons_encoded [OF assms(1)] encode_loop_Cons_encoded [OF assms(2)]
        encode_loop_Cons_encoded [OF assms(3)] encode_loop_Cons_encoded [OF assms(4)]
        encode_loop.simps(1))

lemma encode_categorical_inputs_Inr:
  assumes "encode_loop G (categorical_inputs r) Map.empty = Inr enc"
  shows "\<exists>cc ct cf cd.
           encoded_as G ''City'' (city r) cc \<and> encoded_as G ''Type'' (property_type r) ct \<and>
           encoded_as G ''Furnished'' (furnished r) cf \<and>
           encoded_as G ''Delivery_Term'' (delivery_term r) cd \<and>
           enc = [''City'' \<mapsto> cc, ''Type'' \<mapsto> ct, ''Furnished'' \<mapsto> cf, ''Delivery_Term'' \<mapsto> cd]"
proof -
  from assms obtain cc where c: "encoded_as G ''City'' (city r) cc"
    and 1: "encode_loop G [(''Type'', property_type r), (''Furnished'', furnished r),
              (''Delivery_Term'', delivery_term r)] [''City'' \<mapsto> cc] = Inr enc"
    unfolding categorical_inputs_def by (blast dest: encode_loop_Cons_Inr)
  from 1 obtain ct where t: "encoded_as G ''Type'' (property_type r) ct"
    and 2: "encode_loop G [(''Furnished'', furnished r), (''Delivery_Term'', delivery_term r)]
              [''City'' \<mapsto> cc, ''Type'' \<mapsto> ct] = Inr enc"
    by (blast dest: encode_loop_Cons_Inr)
  from 2 obtain cf where f: "encoded_as G ''Furnished'' (furnished r) cf"
    and 3: "encode_loop G [(''Delivery_Term'', delivery_term r)]
              [''City'' \<mapsto> cc, ''Type'' \<mapsto> ct, ''Furnished'' \<mapsto> cf] = Inr enc"
    by (blast dest: encode_loop_Cons_Inr)
  from 3 obtain cd where d: "encoded_as G ''Delivery_Term'' (delivery_term r) cd"
    and 4: "encode_loop G []
              [''City'' \<mapsto> cc, ''Type'' \<mapsto> ct, ''Furnished'' \<mapsto> cf, ''Delivery_Term'' \<mapsto> cd] = Inr enc"
    by (blast dest: encode_loop_Cons_Inr)
  from 4 have "enc = [''City'' \<mapsto> cc, ''Type'' \<mapsto> ct, ''Furnished'' \<mapsto> cf, ''Delivery_Term'' \<mapsto> cd]"
    by simp
  with c t f d show ?thesis by blast
qed

lemma getitem_encoded:
  "getitem [''City'' \<mapsto> cc, ''Type'' \<mapsto> ct, ''Furnished'' \<mapsto> cf, ''Delivery_Term'' \<mapsto> cd] ''City'' = Inr cc"
  "getitem [''City'' \<mapsto> cc, ''Type'' \<mapsto> ct, ''Furnished'' \<mapsto> cf, ''Delivery_Term'' \<mapsto> cd] ''Type'' = Inr ct"
  "getitem [''City'' \<mapsto> cc, ''Type'' \<mapsto> ct, ''Furnished'' \<mapsto> cf, ''Delivery_Term'' \<mapsto> cd] ''Furnished'' = Inr cf"
  "getitem [''City'' \<mapsto> cc, ''Type'' \<mapsto> ct, ''Furnished'' \<mapsto> cf, ''Delivery_Term'' \<mapsto> cd] ''Delivery_Term'' = Inr cd"
  by (simp_all add: getitem_def)

text \<open>Once the inputs are validated and encoded, only the price lookup can still fail.\<close>

lemma assemble_encoded:
  assumes "validate r = Inr ()"
    and "encoded_as G ''City'' (city r) cc" and "encoded_as G ''Type'' (property_type r) ct"
    and "encoded_as G ''Furnished'' (furnished r) cf"
    and "encoded_as G ''Delivery_Term'' (delivery_term r) cd"
  shows "assemble G r =
           (case city_price_per_sqm G r cc of
              Inl e \<Rightarrow> Inl e
            | Inr price \<Rightarrow> Inr (input_df_of r ct cf cd cc price))"
  using assms(1) encode_categorical_inputs [OF assms(2-5)]
  by (simp add: assemble_def bind_exn_def getitem_encoded split: sum.splits)

lemma assemble_Inr:
  assumes "assemble G r = Inr df"
  shows "\<exists>cc ct cf cd price.
           validate r = Inr () \<and>
           encoded_as G ''City'' (city r) cc \<and> encoded_as G ''Type'' (property_type r) ct \<and>
           encoded_as G ''Furnished'' (furnished r) cf \<and>
           encoded_as G ''Delivery_Term'' (delivery_term r) cd \<and>
           city_price_per_sqm G r cc = Inr price \<and>
           df = input_df_of r ct cf cd cc price"
proof -
  from assms have v: "validate r = Inr ()"
    by (cases "validate r") (simp_all add: assemble_def bind_exn_def)
  from assms v obtain enc where e: "encode_loop G (categorical_inputs r) Map.empty = Inr enc"
    by (cases "encode_loop G (categorical_inputs r) Map.empty")
       (simp_all add: assemble_def bind_exn_def)
  from encode_categorical_inputs_Inr [OF e] obtain cc ct cf cd where
    c: "encoded_as G ''City'' (city r) cc" "encoded_as G ''Type'' (property_type r) ct"
       "encoded_as G ''Furnished'' (furnished r) cf"
       "encoded_as G ''Delivery_Term'' (delivery_term r) cd"
    by blast
  from assms assemble_encoded [OF v c] obtain price where
    "city_price_per_sqm G r cc = Inr price" "df = input_df_of r ct cf cd cc price"
    by (cases "city_price_per_sqm G r cc") auto
  with v c show ?thesis by blast
qed

lemma predict_calls_model:
  assumes "assemble G r = Inr df"
  shows "\<exists>rest. fst (predict G r) = ModelPredict df # rest"
  using assms by (auto simp: predict_def predict_body_def split: sum.splits)

lemma predict_frames:
  assumes "assemble G r = Inr df"
  shows "set (frames_used (fst (predict G r))) = {df}"
  using assms by (auto simp: predict_def predict_body_def split: sum.splits)

lemma predict_no_frames:
  assumes "assemble G r = Inl e"
  shows "fst (predict G r) = []"
  using assms by (simp add: predict_def predict_body_def)


section \<open>The sample deployment, evaluated\<close>

lemma sample_validate: "validate sample_input = Inr ()"
  by (simp add: validate_def sample_input_def)

lemma sample_encoded:
  assumes "label_encoders G = sample_encoders"
  shows "encoded_as G ''City'' ''Alexandria'' 0" and "encoded_as G ''City'' ''Cairo'' 1"
    and "encoded_as G ''City'' ''Giza'' 2"
    and "encoded_as G ''Type'' ''Apartment'' 0"
    and "encoded_as G ''Furnished'' ''Yes'' 1"
    and "encoded_as G ''Delivery_Term'' ''Ready'' 1"
  using assms by (simp_all add: encoded_as_def sample_encoders_def transform_def)

lemma exact_mean_20_30: "exact_div (exact_sum [Num 20, Num 30]) (Suc (Suc 0)) = Num 25"
  by (simp add: exact_sum_def)

lemma sample_city_price:
  assumes "df_cleaned G = [(1, Num 20), (0, Num 10), (1, Num 30)]"
    and "float64_sum G = exact_sum" and "float64_div G = exact_div"
  shows "city_price_per_sqm G r 1 = Inr (Num 25)"
  using assms
  by (simp add: city_price_per_sqm_def city_data_def series_mean_def notna_def fillna0_def
      exact_mean_20_30)

lemma sample_assemble:
  assumes "label_encoders G = sample_encoders"
    and "df_cleaned G = [(1, Num 20), (0, Num 10), (1, Num 30)]"
    and "float64_sum G = exact_sum" and "float64_div G = exact_div"
  shows "assemble G sample_input = Inr (sample_df (Num 25))"
proof -
  have "assemble G sample_input =
      (case city_price_per_sqm G sample_input 1 of
         Inl e \<Rightarrow> Inl e
       | Inr price \<Rightarrow> Inr (input_df_of sample_input 0 1 1 1 price))"
    using sample_encoded [OF assms(1)]
    by (intro assemble_encoded sample_validate) (simp_all add: sample_input_def)
  then show ?thesis
    by (simp add: sample_city_price [OF assms(2-4)] sample_df_def)
qed

lemma str_nat_400: "str_nat 400 = ''400''" and str_nat_500: "str_nat 500 = ''500''"
  by code_simp+

lemma model_raising_body:
  "predict_body (model_raising e) sample_input = ([ModelPredict (sample_df (Num 25))], Inl e)"
proof -
  have "assemble (model_raising e) sample_input = Inr (sample_df (Num 25))"
    by (rule sample_assemble) (simp_all add: model_raising_def sample_globals_def)
  then show ?thesis by (simp add: predict_body_def model_raising_def)
qed

section \<open>The exception handlers\<close>

text \<open>
  Claim C10, amended. Whatever is raised in the body of \<open>predict\<close> meets the two
  handlers. A \<open>ValueError\<close> becomes an \<open>HTTPException\<close> with status 400 and the detail
  \<open>Input error: \<close> followed by its message. Every other exception that derives from
  \<open>Exception\<close> (an \<open>HTTPException\<close> raised by the body itself included) becomes one with
  status 500 and the detail \<open>Prediction failed: \<close> followed by its \<open>str\<close>. An
  exception that derives from \<open>BaseException\<close> only is caught by neither handler and
  leaves \<open>predict\<close> unchanged. The calls made before the exception stay as they are.
\<close>

theorem handlers_classify:
  "(predict_body G r = (calls, Inl (ValueError m)) \<longrightarrow>
      predict G r = (calls, Inl (HTTPException 400 (''Input error: '' @ m)))) \<and>
   (predict_body G r = (calls, Inl (HTTPException status detail)) \<longrightarrow>
      predict G r =
        (calls, Inl (HTTPException 500
                       (''Prediction failed: '' @ http_exception_str G status detail)))) \<and>
   (predict_body G r = (calls, Inl (OtherError m)) \<longrightarrow>
      predict G r = (calls, Inl (HTTPException 500 (''Prediction failed: '' @ m)))) \<and>
   (predict_body G r = (calls, Inl (BaseExceptionOnly m)) \<longrightarrow>
      predict G r = (calls, Inl (BaseExceptionOnly m)))"
  by (simp add: predict_def)

theorem handlers_classify_witness:
  "predict (model_raising (ValueError ''feature_names mismatch'')) sample_input =
     ([ModelPredict (sample_df (Num 25))],
      Inl (HTTPException 400 ''Input error: feature_names mismatch'')) \<and>
   predict (model_raising (HTTPException 400 ''raised inside'')) sample_input =
     ([ModelPredict (sample_df (Num 25))],
      Inl (HTTPException 500 ''Prediction failed: 400: raised inside'')) \<and>
   predict (model_raising (OtherError ''out of memory'')) sample_input =
     ([ModelPredict (sample_df (Num 25))],
      Inl (HTTPException 500 ''Prediction failed: out of memory'')) \<and>
   predict (model_raising (BaseExceptionOnly ''SystemExit'')) sample_input =
     ([ModelPredict (sample_df (Num 25))], Inl (BaseExceptionOnly ''SystemExit''))"
proof -
  let ?calls = "[ModelPredict (sample_df (Num 25))]"
  have a: "predict (model_raising (ValueError ''feature_names mismatch'')) sample_input =
     (?calls, Inl (HTTPException 400 (''Input error: '' @ ''feature_names mismatch'')))"
    using handlers_classify [of "model_raising (ValueError ''feature_names mismatch'')"
        sample_input ?calls "''feature_names mismatch''"]
      model_raising_body [of "ValueError ''feature_names mismatch''"]
    by blast
  have b: "predict (model_raising (HTTPException 400 ''raised inside'')) sample_input =
     (?calls, Inl (HTTPException 500 (''Prediction failed: '' @
         http_exception_str (model_raising (HTTPException 400 ''raised inside'')) 400
           ''raised inside'')))"
    using handlers_classify [of "model_raising (HTTPException 400 ''raised inside'')"
        sample_input ?calls _ 400 "''raised inside''"]
      model_raising_body [of "HTTPException 400 ''raised inside''"]
    by blast
  have c: "predict (model_raising (OtherError ''out of memory'')) sample_input =
     (?calls, Inl (HTTPException 500 (''Prediction failed: '' @ ''out of memory'')))"
    using handlers_classify [of "model_raising (OtherError ''out of memory'')"
        sample_input ?calls "''out of memory''"]
      model_raising_body [of "OtherError ''out of memory''"]
    by blast
  have d: "predict (model_raising (BaseExceptionOnly ''SystemExit'')) sample_input =
     (?calls, Inl (BaseExceptionOnly ''SystemExit''))"
    using handlers_classify [of "model_raising (BaseExceptionOnly ''SystemExit'')"
        sample_input ?calls "''SystemExit''"]
      model_raising_body [of "BaseExceptionOnly ''SystemExit''"]
    by blast
  from a b c d show ?thesis
    by (simp add: model_raising_def sample_globals_def str_nat_400)
qed

text \<open>
  The claim as written sends every exception that is not a \<open>ValueError\<close> to status 500.
  A \<open>SystemExit\<close> raised while the model runs is not one, and it leaves \<open>predict\<close> as
  it is, not as an \<open>HTTPException\<close>.
\<close>

theorem handlers_counterexample:
  "predict_body (model_raising (BaseExceptionOnly ''SystemExit'')) sample_input =
     ([ModelPredict (sample_df (Num 25))], Inl (BaseExceptionOnly ''SystemExit'')) \<and>
   predict (model_raising (BaseExceptionOnly ''SystemExit'')) sample_input =
     ([ModelPredict (sample_df (Num 25))], Inl (BaseExceptionOnly ''SystemExit'')) \<and>
   BaseExceptionOnly ''SystemExit'' \<noteq> HTTPException 500 (''Prediction failed: '' @ ''SystemExit'')"
  by (simp add: predict_def model_raising_body)

section \<open>Validation of the numbers\<close>

lemma validate_invalid:
  assumes "bedrooms r < 0 \<or> bathrooms r < 0 \<or> flt_le (area r) (Num 0) \<or> level r < 0"
  shows "\<exists>detail. validate r = Inl (HTTPException 400 detail)"
  using assms by (auto simp: validate_def)

text \<open>
  Claim C1, as the code behaves. A request with negative bedrooms, bathrooms or level, or
  with an area that is zero or less, never reaches the model (the trace of calls is
  empty). The body raises \<open>HTTPException(400)\<close> for it, but the second handler takes
  that exception too, so what leaves the endpoint has status 500, not 400.
\<close>

theorem predict_invalid_numbers_500:
  assumes "bedrooms r < 0 \<or> bathrooms r < 0 \<or> flt_le (area r) (Num 0) \<or> level r < 0"
  shows "\<exists>detail. predict G r =
           ([], Inl (HTTPException 500
                       (''Prediction failed: '' @ http_exception_str G 400 detail)))"
proof -
  from validate_invalid [OF assms] obtain detail
    where "validate r = Inl (HTTPException 400 detail)" ..
  then have "assemble G r = Inl (HTTPException 400 detail)"
    by (rule assemble_validate_Inl)
  then have "predict G r = ([], Inl (handlers G (HTTPException 400 detail)))"
    by (rule predict_assemble_Inl)
  then show ?thesis by (intro exI [of _ detail]) simp
qed

theorem predict_invalid_numbers_500_witness:
  "bedrooms (sample_input\<lparr>bedrooms := - 1\<rparr>) < 0 \<and>
   predict sample_globals (sample_input\<lparr>bedrooms := - 1\<rparr>) =
     ([], Inl (HTTPException 500 ''Prediction failed: 400: Bedrooms must be non-negative''))"
proof -
  have neg: "bedrooms (sample_input\<lparr>bedrooms := - 1\<rparr>) < 0" by simp
  then have "bedrooms (sample_input\<lparr>bedrooms := - 1\<rparr>) < 0 \<or>
      bathrooms (sample_input\<lparr>bedrooms := - 1\<rparr>) < 0 \<or>
      flt_le (area (sample_input\<lparr>bedrooms := - 1\<rparr>)) (Num 0) \<or>
      level (sample_input\<lparr>bedrooms := - 1\<rparr>) < 0" by simp
  from predict_invalid_numbers_500 [OF this, of sample_globals] obtain detail where
    p: "predict sample_globals (sample_input\<lparr>bedrooms := - 1\<rparr>) =
       ([], Inl (HTTPException 500
           (''Prediction failed: '' @ http_exception_str sample_globals 400 detail)))" ..
  have "validate (sample_input\<lparr>bedrooms := - 1\<rparr>) =
      Inl (HTTPException 400 ''Bedrooms must be non-negative'')"
    by (simp add: validate_def)
  then have "predict sample_globals (sample_input\<lparr>bedrooms := - 1\<rparr>) =
     ([], Inl (handlers sample_globals (HTTPException 400 ''Bedrooms must be non-negative'')))"
    by (intro predict_assemble_Inl assemble_validate_Inl)
  then have "predict sample_globals (sample_input\<lparr>bedrooms := - 1\<rparr>) =
     ([], Inl (HTTPException 500 ''Prediction failed: 400: Bedrooms must be non-negative''))"
    by (simp add: sample_globals_def str_nat_400)
  with neg p show ?thesis by simp
qed


section \<open>Unknown categories\<close>

text \<open>
  The loop stops at the first column whose value is not a class of its encoder; the
  columns before it have been encoded.
\<close>

lemma encode_loop_invalid:
  assumes "list_all (\<lambda>(c, x). \<exists>code. encoded_as G c x code) pre"
    and "label_encoders G col = Some valid_options" and "v \<notin> set valid_options"
  shows "encode_loop G (pre @ (col, v) # post) e =
           Inl (HTTPException 400 (invalid_detail col v valid_options))"
  using assms(1)
proof (induction pre arbitrary: e)
  case Nil
  from assms(2,3) show ?case by simp
next
  case (Cons p pre)
  obtain c x where p: "p = (c, x)" by (cases p)
  with Cons.prems obtain code where "encoded_as G c x code" by auto
  then have "encode_loop G ((p # pre) @ (col, v) # post) e =
      encode_loop G (pre @ (col, v) # post) (e(c \<mapsto> code))"
    unfolding p by (simp only: append_Cons encode_loop_Cons_encoded)
  with Cons show ?case by simp
qed

text \<open>
  Claim C2, as the code behaves. When the numbers are valid and, in the order City,
  Type, Furnished, Delivery\_Term, the first column with a value outside its encoder's
  classes is \<open>col\<close>, the body raises \<open>HTTPException(400)\<close> whose detail lists exactly
  the classes of that column, joined by commas. The second handler takes that exception
  too: what leaves the endpoint has status 500, with the listing inside the
  \<open>Prediction failed: \<close> text, and the model is not called.
\<close>

theorem invalid_category_500:
  assumes "validate r = Inr ()"
    and "categorical_inputs r = pre @ (col, v) # post"
    and "list_all (\<lambda>(c, x). \<exists>code. encoded_as G c x code) pre"
    and "label_encoders G col = Some valid_options" and "v \<notin> set valid_options"
  shows "predict G r =
           ([], Inl (HTTPException 500
                       (''Prediction failed: '' @
                        http_exception_str G 400
                          (''Invalid '' @ col @ '': '' @ [CHR 0x27] @ v @ [CHR 0x27] @
                           ''. Valid options: '' @ join '', '' valid_options))))"
proof -
  have "encode_loop G (categorical_inputs r) Map.empty =
      Inl (HTTPException 400 (invalid_detail col v valid_options))"
    unfolding assms(2) by (rule encode_loop_invalid [OF assms(3-5)])
  with assms(1) have "assemble G r = Inl (HTTPException 400 (invalid_detail col v valid_options))"
    by (simp add: assemble_def bind_exn_def)
  then have "predict G r =
      ([], Inl (handlers G (HTTPException 400 (invalid_detail col v valid_options))))"
    by (rule predict_assemble_Inl)
  then show ?thesis by (simp add: invalid_detail_def)
qed

theorem invalid_category_500_witness:
  "''Castle'' \<notin> set [''Apartment'', ''Villa''] \<and>
   predict sample_globals (sample_input\<lparr>property_type := ''Castle''\<rparr>) =
     ([], Inl (HTTPException 500
        (''Prediction failed: 400: Invalid Type: '' @ [CHR 0x27] @ ''Castle'' @ [CHR 0x27] @
         ''. Valid options: Apartment, Villa'')))"
proof -
  let ?r = "sample_input\<lparr>property_type := ''Castle''\<rparr>"
  have v: "validate ?r = Inr ()"
    by (simp add: validate_def sample_input_def)
  have c: "categorical_inputs ?r =
      [(''City'', ''Cairo'')] @ (''Type'', ''Castle'') #
      [(''Furnished'', ''Yes''), (''Delivery_Term'', ''Ready'')]"
    by (simp add: categorical_inputs_def sample_input_def)
  have "encoded_as sample_globals ''City'' ''Cairo'' 1"
    by (rule sample_encoded) (simp add: sample_globals_def)
  then have p: "list_all (\<lambda>(c, x). \<exists>code. encoded_as sample_globals c x code)
      [(''City'', ''Cairo'')]"
    by auto
  have l: "label_encoders sample_globals ''Type'' = Some [''Apartment'', ''Villa'']"
    by (simp add: sample_globals_def sample_encoders_def)
  have n: "''Castle'' \<notin> set [''Apartment'', ''Villa'']" by simp
  from invalid_category_500 [OF v c p l n] n show ?thesis
    by (simp add: sample_globals_def str_nat_400)
qed

section \<open>A city without rows in the dataset\<close>

lemma str_int_2: "str_int 2 = ''2''"
  by code_simp

text \<open>
  Claim C6, as the code behaves. When the request is valid and encoded and no row of the
  dataset carries the city's code, the body raises \<open>HTTPException(400)\<close> whose detail
  names the code, the city as submitted, and the classes of the City encoder (not the
  cities of the dataset). The second handler takes that exception too: what leaves the
  endpoint has status 500, and the model is not called.
\<close>

theorem no_city_rows_500:
  assumes "validate r = Inr ()"
    and "encoded_as G ''City'' (city r) cc" and "encoded_as G ''Type'' (property_type r) ct"
    and "encoded_as G ''Furnished'' (furnished r) cf"
    and "encoded_as G ''Delivery_Term'' (delivery_term r) cd"
    and "label_encoders G ''City'' = Some valid_cities"
    and "filter (\<lambda>row. fst row = cc) (df_cleaned G) = []"
  shows "predict G r =
           ([], Inl (HTTPException 500
                       (''Prediction failed: '' @
                        http_exception_str G 400
                          (''No data for city code '' @ str_int cc @ '' (decoded: '' @ city r @
                           ''). Valid cities: '' @ join '', '' valid_cities))))"
proof -
  from assms(6,7) have "city_price_per_sqm G r cc =
      Inl (HTTPException 400 (no_data_detail cc (city r) valid_cities))"
    by (simp add: city_price_per_sqm_def city_data_def)
  with assemble_encoded [OF assms(1-5)]
  have "assemble G r = Inl (HTTPException 400 (no_data_detail cc (city r) valid_cities))"
    by simp
  then have "predict G r =
      ([], Inl (handlers G (HTTPException 400 (no_data_detail cc (city r) valid_cities))))"
    by (rule predict_assemble_Inl)
  then show ?thesis by (simp add: no_data_detail_def)
qed

theorem no_city_rows_500_witness:
  "filter (\<lambda>row. fst row = 2) (df_cleaned sample_globals) = [] \<and>
   predict sample_globals (sample_input\<lparr>city := ''Giza''\<rparr>) =
     ([], Inl (HTTPException 500
        ''Prediction failed: 400: No data for city code 2 (decoded: Giza). Valid cities: Alexandria, Cairo, Giza''))"
proof -
  let ?r = "sample_input\<lparr>city := ''Giza''\<rparr>"
  have g: "label_encoders sample_globals = sample_encoders"
    by (simp add: sample_globals_def)
  have v: "validate ?r = Inr ()"
    by (simp add: validate_def sample_input_def)
  have e: "encoded_as sample_globals ''City'' (city ?r) 2"
    "encoded_as sample_globals ''Type'' (property_type ?r) 0"
    "encoded_as sample_globals ''Furnished'' (furnished ?r) 1"
    "encoded_as sample_globals ''Delivery_Term'' (delivery_term ?r) 1"
    using sample_encoded [OF g] by (simp_all add: sample_input_def)
  have l: "label_encoders sample_globals ''City'' = Some [''Alexandria'', ''Cairo'', ''Giza'']"
    by (simp add: sample_globals_def sample_encoders_def)
  have n: "filter (\<lambda>row. fst row = 2) (df_cleaned sample_globals) = []"
    by (simp add: sample_globals_def)
  from no_city_rows_500 [OF v e l n] n show ?thesis
    by (simp add: sample_globals_def str_nat_400 str_int_2)
qed


section \<open>The prediction and its sign\<close>

text \<open>What a run that calls the model can end with, and what a successful run has done.\<close>

lemma predict_negative:
  assumes "assemble G r = Inr df" and "model_predict G df = Inr p" and "flt_less p (Num 0)"
  shows "predict G r =
           ([ModelPredict df],
            Inl (HTTPException 500
                   (''Prediction failed: '' @ http_exception_str G 500 negative_price_detail)))"
  using assms by (simp add: predict_def predict_body_def)

lemma predict_Inr:
  assumes "predict G r = (calls, Inr resp)"
  shows "\<exists>df sv unique_id.
           assemble G r = Inr df \<and> model_predict G df = Inr (predicted_price resp) \<and>
           \<not> flt_less (predicted_price resp) (Num 0) \<and>
           shap_values G df = Inr sv \<and> save_waterfall G sv df = Inr unique_id \<and>
           calls = [ModelPredict df, ShapValues df, SaveWaterfall unique_id] \<and>
           image_url resp = ''/static/shap_explanation_'' @ unique_id @ ''.jpeg'' \<and>
           factors_description resp = describe G df sv"
  using assms
  by (auto simp: predict_def predict_body_def split: sum.splits if_splits)

lemma model_answering_assemble:
  "assemble (model_answering p) sample_input = Inr (sample_df (Num 25))"
  by (rule sample_assemble) (simp_all add: model_answering_def sample_globals_def)

lemma sample_predict:
  "predict sample_globals sample_input =
     ([ModelPredict (sample_df (Num 25)), ShapValues (sample_df (Num 25)),
       SaveWaterfall ''0f8fad5b''],
      Inr \<lparr>predicted_price = Num 1000,
           image_url = ''/static/shap_explanation_0f8fad5b.jpeg'',
           factors_description = describe sample_globals (sample_df (Num 25)) sample_shap\<rparr>)"
proof -
  have "assemble sample_globals sample_input = Inr (sample_df (Num 25))"
    by (rule sample_assemble) (simp_all add: sample_globals_def)
  then show ?thesis
    by (simp add: predict_def predict_body_def sample_globals_def)
qed

text \<open>
  Claim C4. When the request reaches the model and the model answers a price below zero,
  the endpoint fails with status 500 (the body's own \<open>HTTPException(500)\<close>, rewrapped by
  the second handler) after that single call. When the endpoint returns a response, its
  \<open>predicted_price\<close> is exactly what the model answered for the assembled data frame,
  and it is not below zero: nothing is clamped. (The test of the code is \<open>price < 0\<close>,
  which a NaN answer does not meet.)
\<close>

theorem negative_prediction_server_error:
  "(assemble G r = Inr df \<and> model_predict G df = Inr p \<and> flt_less p (Num 0) \<longrightarrow>
      predict G r =
        ([ModelPredict df],
         Inl (HTTPException 500
                (''Prediction failed: '' @
                 http_exception_str G 500 ''Predicted price is negative, which is invalid'')))) \<and>
   (predict G r = (calls, Inr resp) \<longrightarrow>
      (\<exists>df'. assemble G r = Inr df' \<and> model_predict G df' = Inr (predicted_price resp)) \<and>
      \<not> flt_less (predicted_price resp) (Num 0))"
proof (intro conjI impI)
  assume "assemble G r = Inr df \<and> model_predict G df = Inr p \<and> flt_less p (Num 0)"
  then show "predict G r =
        ([ModelPredict df],
         Inl (HTTPException 500
                (''Prediction failed: '' @
                 http_exception_str G 500 ''Predicted price is negative, which is invalid'')))"
    using predict_negative [of G r df p] by (simp add: negative_price_detail_def)
next
  assume "predict G r = (calls, Inr resp)"
  from predict_Inr [OF this]
  show "\<exists>df'. assemble G r = Inr df' \<and> model_predict G df' = Inr (predicted_price resp)"
    by blast
next
  assume "predict G r = (calls, Inr resp)"
  from predict_Inr [OF this]
  show "\<not> flt_less (predicted_price resp) (Num 0)" by blast
qed

theorem negative_prediction_server_error_witness:
  "predict (model_answering (Num (- 5))) sample_input =
     ([ModelPredict (sample_df (Num 25))],
      Inl (HTTPException 500
             ''Prediction failed: 500: Predicted price is negative, which is invalid'')) \<and>
   model_predict sample_globals (sample_df (Num 25)) = Inr (Num 1000) \<and>
   \<not> flt_less (Num 1000) (Num 0)"
proof -
  let ?resp = "\<lparr>predicted_price = Num 1000,
           image_url = ''/static/shap_explanation_0f8fad5b.jpeg'',
           factors_description = describe sample_globals (sample_df (Num 25)) sample_shap\<rparr>"
  have m: "model_predict (model_answering (Num (- 5))) (sample_df (Num 25)) = Inr (Num (- 5))"
    by (simp add: model_answering_def)
  have n: "flt_less (Num (- 5)) (Num 0)" by simp
  from negative_prediction_server_error
         [of "model_answering (Num (- 5))" sample_input "sample_df (Num 25)" "Num (- 5)"]
       model_answering_assemble m n
  have a: "predict (model_answering (Num (- 5))) sample_input =
        ([ModelPredict (sample_df (Num 25))],
         Inl (HTTPException 500
                (''Prediction failed: '' @
                 http_exception_str (model_answering (Num (- 5))) 500
                   ''Predicted price is negative, which is invalid'')))"
    by blast
  from negative_prediction_server_error
         [of sample_globals sample_input _ _
             "[ModelPredict (sample_df (Num 25)), ShapValues (sample_df (Num 25)),
               SaveWaterfall ''0f8fad5b'']" ?resp]
       sample_predict
  have b: "\<not> flt_less (predicted_price ?resp) (Num 0)"
    by blast
  have c: "model_predict sample_globals (sample_df (Num 25)) = Inr (Num 1000)"
    by (simp add: sample_globals_def)
  from a b c show ?thesis
    by (simp add: model_answering_def sample_globals_def str_nat_500)
qed

section \<open>The feature vector\<close>

text \<open>The only data frame the model is ever called on is the assembled one.\<close>

lemma model_call_assembled:
  assumes "ModelPredict df \<in> set (fst (predict G r))"
  shows "assemble G r = Inr df"
  using assms
  by (cases "assemble G r")
     (auto simp: predict_def predict_body_def split: sum.splits if_splits)

lemma input_df_columns: "map fst (input_df_of r ct cf cd cc price) = feature_columns"
  by (simp add: input_df_of_def feature_columns_def)

text \<open>
  Claim C7. Whenever the model is called, the data frame it receives has the nine
  columns Type, Bedrooms, Bathrooms, Area, Furnished, Level, Delivery\_Term, City,
  Price\_per\_sqm in this order; the four categorical slots hold the codes of the
  submitted values under their encoders, the other slots the request's numbers, and the
  last slot the price the lookup derived for the city code. Every data frame handed to
  the model or to the explainer during the call is this one.
\<close>

theorem feature_vector_order:
  assumes "ModelPredict df \<in> set (fst (predict G r))"
  shows "map fst df = feature_columns \<and>
         (\<exists>cc ct cf cd price.
            encoded_as G ''City'' (city r) cc \<and> encoded_as G ''Type'' (property_type r) ct \<and>
            encoded_as G ''Furnished'' (furnished r) cf \<and>
            encoded_as G ''Delivery_Term'' (delivery_term r) cd \<and>
            city_price_per_sqm G r cc = Inr price \<and>
            map snd df =
              [IntCell ct, IntCell (bedrooms r), IntCell (bathrooms r), FloatCell (area r),
               IntCell cf, IntCell (level r), IntCell cd, IntCell cc, FloatCell price]) \<and>
         set (frames_used (fst (predict G r))) = {df}"
proof -
  from assms have a: "assemble G r = Inr df" by (rule model_call_assembled)
  from assemble_Inr [OF a] obtain cc ct cf cd price where
    e: "encoded_as G ''City'' (city r) cc" "encoded_as G ''Type'' (property_type r) ct"
       "encoded_as G ''Furnished'' (furnished r) cf"
       "encoded_as G ''Delivery_Term'' (delivery_term r) cd"
       "city_price_per_sqm G r cc = Inr price"
    and df: "df = input_df_of r ct cf cd cc price"
    by blast
  have v: "map snd df =
      [IntCell ct, IntCell (bedrooms r), IntCell (bathrooms r), FloatCell (area r),
       IntCell cf, IntCell (level r), IntCell cd, IntCell cc, FloatCell price]"
    by (simp add: df input_df_of_def)
  have "\<exists>cc ct cf cd price.
            encoded_as G ''City'' (city r) cc \<and> encoded_as G ''Type'' (property_type r) ct \<and>
            encoded_as G ''Furnished'' (furnished r) cf \<and>
            encoded_as G ''Delivery_Term'' (delivery_term r) cd \<and>
            city_price_per_sqm G r cc = Inr price \<and>
            map snd df =
              [IntCell ct, IntCell (bedrooms r), IntCell (bathrooms r), FloatCell (area r),
               IntCell cf, IntCell (level r), IntCell cd, IntCell cc, FloatCell price]"
  proof (intro exI conjI)
    show "encoded_as G ''City'' (city r) cc" by (rule e(1))
    show "encoded_as G ''Type'' (property_type r) ct" by (rule e(2))
    show "encoded_as G ''Furnished'' (furnished r) cf" by (rule e(3))
    show "encoded_as G ''Delivery_Term'' (delivery_term r) cd" by (rule e(4))
    show "city_price_per_sqm G r cc = Inr price" by (rule e(5))
    show "map snd df =
      [IntCell ct, IntCell (bedrooms r), IntCell (bathrooms r), FloatCell (area r),
       IntCell cf, IntCell (level r), IntCell cd, IntCell cc, FloatCell price]" by (rule v)
  qed
  moreover have "map fst df = feature_columns"
    unfolding df by (rule input_df_columns)
  moreover note predict_frames [OF a]
  ultimately show ?thesis by blast
qed

theorem feature_vector_order_witness:
  "ModelPredict (sample_df (Num 25)) \<in> set (fst (predict sample_globals sample_input)) \<and>
   map fst (sample_df (Num 25)) = feature_columns \<and>
   map snd (sample_df (Num 25)) =
     [IntCell 0, IntCell 3, IntCell 2, FloatCell (Num 150), IntCell 1, IntCell 4, IntCell 1,
      IntCell 1, FloatCell (Num 25)] \<and>
   set (frames_used (fst (predict sample_globals sample_input))) = {sample_df (Num 25)}"
proof -
  have m: "ModelPredict (sample_df (Num 25)) \<in> set (fst (predict sample_globals sample_input))"
    by (simp add: sample_predict)
  have "map snd (sample_df (Num 25)) =
     [IntCell 0, IntCell 3, IntCell 2, FloatCell (Num 150), IntCell 1, IntCell 4, IntCell 1,
      IntCell 1, FloatCell (Num 25)]"
    by (simp add: sample_df_def input_df_of_def sample_input_def)
  with feature_vector_order [OF m] m show ?thesis by blast
qed

section \<open>The derived price per square metre\<close>

text \<open>
  The test \<open>isnan(x) or not isfinite(x)\<close> of the code holds exactly for the values that
  are not finite.
\<close>

lemma not_usable_iff: "(isnan x \<or> \<not> isfinite x) = (\<not> isfinite x)"
  by (cases x) simp_all



lemma city_price_fallback:
  assumes "filter (\<lambda>row. fst row = cc) (df_cleaned G) \<noteq> []"
    and "\<not> isfinite (series_mean G (map snd (filter (\<lambda>row. fst row = cc) (df_cleaned G))))"
  shows "city_price_per_sqm G r cc =
           (if isfinite (series_median G (map snd (df_cleaned G)))
            then Inr (series_median G (map snd (df_cleaned G)))
            else Inl (HTTPException 500
                   ''Cannot compute Price_per_sqm: invalid data in cleaned_data.csv''))"
  using assms
  by (simp add: city_price_per_sqm_def city_data_def Let_def not_usable_iff)

lemma series_mean_unfold:
  "series_mean G prices =
     (if filter (\<lambda>x. \<not> isnan x) prices = [] then NaN
      else float64_div G (float64_sum G (map (\<lambda>x. if isnan x then Num 0 else x) prices))
             (length (filter (\<lambda>x. \<not> isnan x) prices)))"
  by (simp add: series_mean_def notna_def fillna0_def Let_def)


lemma with_dataset_fields:
  "label_encoders (with_dataset rows) = sample_encoders"
  "df_cleaned (with_dataset rows) = rows"
  "http_exception_str (with_dataset rows) = (\<lambda>status detail. str_nat status @ '': '' @ detail)"
  "float64_sum (with_dataset rows) = exact_sum"
  "float64_div (with_dataset rows) = exact_div"
  by (simp_all add: with_dataset_def sample_globals_def)

lemma sample_input_encoded:
  assumes "label_encoders G = sample_encoders"
  shows "encoded_as G ''City'' (city sample_input) 1"
    and "encoded_as G ''Type'' (property_type sample_input) 0"
    and "encoded_as G ''Furnished'' (furnished sample_input) 1"
    and "encoded_as G ''Delivery_Term'' (delivery_term sample_input) 1"
  using sample_encoded [OF assms] by (simp_all add: sample_input_def)


lemma sorted_samples:
  "flt_sort (notna [PosInf, Num 5, Num 1]) = [Num 1, Num 5, PosInf]"
  "flt_sort (notna [Num 7, NaN, Num 1, Num 3]) = [Num 1, Num 3, Num 7]"
  "flt_sort (notna [Num 7, NaN, Num 1, Num 3, Num 4]) = [Num 1, Num 3, Num 4, Num 7]"
  "flt_sort (notna [NaN, NaN]) = []"
  by code_simp+

lemma middle_samples:
  "middle_values [Num 1, Num 5, PosInf] = [Num 5]"
  "middle_values [Num 1, Num 3, Num 7] = [Num 3]"
  "middle_values [Num 1, Num 3, Num 4, Num 7] = [Num 3, Num 4]"
  by code_simp+

lemma exact_median_values:
  assumes "float64_sum G = exact_sum" and "float64_div G = exact_div"
  shows "series_median G [PosInf, Num 5, Num 1] = Num 5"
    and "series_median G [Num 7, NaN, Num 1, Num 3] = Num 3"
    and "series_median G [Num 7, NaN, Num 1, Num 3, Num 4] = Num (7 / 2)"
    and "series_median G [NaN, NaN] = NaN"
  using assms
  by (simp_all add: series_median_def sorted_samples middle_samples exact_sum_def)




subsection \<open>The median of the whole dataset\<close>

text \<open>
  Floats that are not NaN are totally ordered, so the values present can be sorted; in
  the sorted list the value at position \<open>i\<close> has at most \<open>i\<close> values below it and at
  most the remaining ones above it. This is what makes the middle values medians.
\<close>

lemma flt_le_total: "\<not> isnan x \<Longrightarrow> \<not> isnan y \<Longrightarrow> \<not> flt_le x y \<Longrightarrow> flt_le y x"
  by (cases x; cases y) auto

lemma flt_le_trans: "flt_le x y \<Longrightarrow> flt_le y z \<Longrightarrow> flt_le x z"
  by (cases x; cases y; cases z) auto

lemma flt_le_not_less: "flt_le x y \<Longrightarrow> \<not> flt_less y x"
  by (cases x; cases y) auto

lemma flt_less_irrefl: "\<not> flt_less x x"
  by (cases x) auto

lemma set_flt_insort: "set (flt_insort x ys) = insert x (set ys)"
  by (induction ys) auto

lemma length_flt_insort: "length (flt_insort x ys) = Suc (length ys)"
  by (induction ys) auto

lemma count_flt_insort: "length (filter P (flt_insort x ys)) = length (filter P (x # ys))"
  by (induction ys) auto

lemma sorted_flt_insort:
  assumes "\<not> isnan x" and "\<forall>y\<in>set ys. \<not> isnan y" and "sorted_wrt flt_le ys"
  shows "sorted_wrt flt_le (flt_insort x ys)"
  using assms
proof (induction ys)
  case Nil
  then show ?case by simp
next
  case (Cons y ys)
  show ?case
  proof (cases "flt_le x y")
    case True
    with Cons.prems show ?thesis by (auto intro: flt_le_trans)
  next
    case False
    with Cons.prems have "flt_le y x" by (auto intro: flt_le_total)
    with False Cons show ?thesis by (auto simp: set_flt_insort)
  qed
qed

lemma set_flt_sort: "set (flt_sort xs) = set xs"
  by (induction xs) (simp_all add: flt_sort_def set_flt_insort)

lemma length_flt_sort: "length (flt_sort xs) = length xs"
  by (induction xs) (simp_all add: flt_sort_def length_flt_insort)

lemma count_flt_sort: "length (filter P (flt_sort xs)) = length (filter P xs)"
  by (induction xs) (simp_all add: flt_sort_def count_flt_insort)

lemma sorted_flt_sort:
  assumes "\<forall>x\<in>set xs. \<not> isnan x"
  shows "sorted_wrt flt_le (flt_sort xs)"
  using assms
proof (induction xs)
  case Nil
  then show ?case by (simp add: flt_sort_def)
next
  case (Cons x xs)
  then have "sorted_wrt flt_le (flt_insort x (flt_sort xs))"
    by (intro sorted_flt_insort) (simp_all add: set_flt_sort)
  then show ?case by (simp add: flt_sort_def)
qed

text \<open>In a sorted list, at most \<open>i\<close> values lie below the one at position \<open>i\<close>.\<close>

lemma sorted_rank:
  assumes "sorted_wrt flt_le s" and "i < length s"
  shows "length (filter (\<lambda>x. flt_less x (s ! i)) s) \<le> i"
    and "length (filter (\<lambda>x. flt_less (s ! i) x) s) \<le> length s - Suc i"
proof -
  from assms(2) have split: "s = take i s @ s ! i # drop (Suc i) s"
    by (rule id_take_nth_drop)
  from assms(1) have "sorted_wrt flt_le (take i s @ s ! i # drop (Suc i) s)"
    using split by simp
  then have before: "\<forall>x\<in>set (take i s). flt_le x (s ! i)"
    and after: "\<forall>y\<in>set (drop (Suc i) s). flt_le (s ! i) y"
    by (auto simp: sorted_wrt_append)
  from after have "filter (\<lambda>x. flt_less x (s ! i)) (drop (Suc i) s) = []"
    by (auto simp: filter_empty_conv dest: flt_le_not_less)
  then have "length (filter (\<lambda>x. flt_less x (s ! i)) (take i s @ s ! i # drop (Suc i) s)) =
      length (filter (\<lambda>x. flt_less x (s ! i)) (take i s))"
    by (simp add: flt_less_irrefl)
  also have "\<dots> \<le> length (take i s)" by (rule length_filter_le)
  also from assms(2) have "\<dots> = i" by simp
  finally show "length (filter (\<lambda>x. flt_less x (s ! i)) s) \<le> i"
    using split by simp
  from before have "filter (\<lambda>x. flt_less (s ! i) x) (take i s) = []"
    by (auto simp: filter_empty_conv dest: flt_le_not_less)
  then have "length (filter (\<lambda>x. flt_less (s ! i) x) (take i s @ s ! i # drop (Suc i) s)) =
      length (filter (\<lambda>x. flt_less (s ! i) x) (drop (Suc i) s))"
    by (simp add: flt_less_irrefl)
  also have "\<dots> \<le> length (drop (Suc i) s)" by (rule length_filter_le)
  also have "\<dots> = length s - Suc i" by simp
  finally show "length (filter (\<lambda>x. flt_less (s ! i) x) s) \<le> length s - Suc i"
    using split by simp
qed

lemma series_median_empty:
  assumes "filter (\<lambda>x. \<not> isnan x) xs = []"
  shows "series_median G xs = NaN"
  using assms by (simp add: series_median_def notna_def flt_sort_def)

lemma sorted_notna:
  "sorted_wrt flt_le (flt_sort (filter (\<lambda>x. \<not> isnan x) xs))"
  by (rule sorted_flt_sort) simp

lemma series_median_odd:
  assumes vs: "vs = filter (\<lambda>x. \<not> isnan x) xs" and odd: "odd (length vs)"
  shows "\<exists>m. series_median G xs = float64_div G (float64_sum G [m]) 1 \<and> m \<in> set vs \<and>
           count_below m vs \<le> length vs div 2 \<and> count_above m vs \<le> length vs div 2"
proof -
  let ?s = "flt_sort vs" and ?k = "length vs div 2"
  have len: "length ?s = length vs" by (rule length_flt_sort)
  from odd have k: "?k < length ?s" unfolding len by (cases "length vs") auto
  then have ne: "?s \<noteq> []" by auto
  have sorted: "sorted_wrt flt_le ?s" unfolding vs by (rule sorted_notna)
  from odd have mid: "middle_values ?s = [?s ! ?k]"
    by (simp add: middle_values_def len Let_def)
  from ne mid have "series_median G xs = float64_div G (float64_sum G [?s ! ?k]) 1"
    by (simp add: series_median_def notna_def vs)
  moreover from k have "?s ! ?k \<in> set vs"
    using nth_mem [OF k] by (simp add: set_flt_sort)
  moreover from sorted_rank(1) [OF sorted k] have "count_below (?s ! ?k) vs \<le> ?k"
    by (simp add: count_below_def count_flt_sort)
  moreover from sorted_rank(2) [OF sorted k] odd have "count_above (?s ! ?k) vs \<le> ?k"
    unfolding len count_above_def count_flt_sort by (auto elim: oddE)
  ultimately show ?thesis by blast
qed

lemma series_median_even:
  assumes vs: "vs = filter (\<lambda>x. \<not> isnan x) xs" and even: "even (length vs)"
    and ne: "vs \<noteq> []"
  shows "\<exists>a b. series_median G xs = float64_div G (float64_sum G [a, b]) 2 \<and>
           a \<in> set vs \<and> b \<in> set vs \<and> flt_le a b \<and>
           count_below a vs \<le> length vs div 2 - 1 \<and> count_above a vs \<le> length vs div 2 \<and>
           count_below b vs \<le> length vs div 2 \<and> count_above b vs \<le> length vs div 2 - 1"
proof -
  let ?s = "flt_sort vs" and ?k = "length vs div 2"
  have len: "length ?s = length vs" by (rule length_flt_sort)
  from even obtain h where h: "length vs = 2 * h" by (auto elim: evenE)
  with ne obtain j where "h = Suc j" by (cases h) auto
  with h have n: "length vs = 2 * Suc j" by simp
  then have k: "?k = Suc j" by simp
  have k1: "?k - 1 < length ?s" and k2: "?k < length ?s"
    unfolding len using n by simp_all
  from k2 have sne: "?s \<noteq> []" by auto
  have sorted: "sorted_wrt flt_le ?s" unfolding vs by (rule sorted_notna)
  from even have mid: "middle_values ?s = [?s ! (?k - 1), ?s ! ?k]"
    by (simp add: middle_values_def len Let_def)
  from sne mid have "series_median G xs =
      float64_div G (float64_sum G [?s ! (?k - 1), ?s ! ?k]) 2"
    by (simp add: series_median_def notna_def vs Let_def numeral_2_eq_2)
  moreover have "?s ! (?k - 1) \<in> set vs" and "?s ! ?k \<in> set vs"
    using nth_mem [OF k1] nth_mem [OF k2] by (simp_all add: set_flt_sort)
  moreover have "flt_le (?s ! (?k - 1)) (?s ! ?k)"
    using sorted k2 k by (simp add: sorted_wrt_nth_less)
  moreover from sorted_rank(1) [OF sorted k1] have "count_below (?s ! (?k - 1)) vs \<le> ?k - 1"
    by (simp add: count_below_def count_flt_sort)
  moreover from sorted_rank(2) [OF sorted k1] have "count_above (?s ! (?k - 1)) vs \<le> ?k"
    unfolding len count_above_def count_flt_sort using n by simp
  moreover from sorted_rank(1) [OF sorted k2] have "count_below (?s ! ?k) vs \<le> ?k"
    by (simp add: count_below_def count_flt_sort)
  moreover from sorted_rank(2) [OF sorted k2] have "count_above (?s ! ?k) vs \<le> ?k - 1"
    unfolding len count_above_def count_flt_sort using n by simp
  ultimately show ?thesis by blast
qed

lemma sample_halves:
  "length [Num 7, Num 1, Num 3] div 2 = 1" "odd (length [Num 7, Num 1, Num 3])"
  "length [Num 7, Num 1, Num 3, Num 4] div 2 = 2" "even (length [Num 7, Num 1, Num 3, Num 4])"
  by simp_all

text \<open>
  Claim C5. For a valid, encoded request whose city has rows in the dataset but whose
  mean price is NaN or not finite, let \<open>d\<close> be the median pandas computes over the
  prices of the entire dataset. When \<open>d\<close> is finite, the model is called on a data
  frame whose last slot holds \<open>d\<close>; when \<open>d\<close> is NaN or not finite, the endpoint fails
  with status 500 and the model is not called. And \<open>d\<close> is a median of the prices
  present (not NaN) in the whole dataset: NaN when there is none; for an odd count the
  float64 mean of the single price that has at most half of the others below it and at
  most half above it; for an even count the float64 mean of the two prices in the
  middle, counted the same way.
\<close>

theorem median_fallback:
  assumes "validate r = Inr ()"
    and "encoded_as G ''City'' (city r) cc" and "encoded_as G ''Type'' (property_type r) ct"
    and "encoded_as G ''Furnished'' (furnished r) cf"
    and "encoded_as G ''Delivery_Term'' (delivery_term r) cd"
    and "filter (\<lambda>row. fst row = cc) (df_cleaned G) \<noteq> []"
    and "isnan (series_mean G (map snd (filter (\<lambda>row. fst row = cc) (df_cleaned G)))) \<or>
         \<not> isfinite (series_mean G (map snd (filter (\<lambda>row. fst row = cc) (df_cleaned G))))"
    and "vs = filter (\<lambda>x. \<not> isnan x) (map snd (df_cleaned G))"
    and "d = series_median G (map snd (df_cleaned G))"
  shows "(isfinite d \<longrightarrow>
            (\<exists>df rest. fst (predict G r) = ModelPredict df # rest \<and>
               df ! 8 = (''Price_per_sqm'', FloatCell d))) \<and>
         (isnan d \<or> \<not> isfinite d \<longrightarrow>
            predict G r =
              ([], Inl (HTTPException 500
                 (''Prediction failed: '' @
                  http_exception_str G 500
                    ''Cannot compute Price_per_sqm: invalid data in cleaned_data.csv'')))) \<and>
         (vs = [] \<longrightarrow> d = NaN) \<and>
         (odd (length vs) \<longrightarrow>
            (\<exists>m. d = float64_div G (float64_sum G [m]) 1 \<and> m \<in> set vs \<and>
               count_below m vs \<le> length vs div 2 \<and> count_above m vs \<le> length vs div 2)) \<and>
         (even (length vs) \<and> vs \<noteq> [] \<longrightarrow>
            (\<exists>a b. d = float64_div G (float64_sum G [a, b]) 2 \<and>
               a \<in> set vs \<and> b \<in> set vs \<and> flt_le a b \<and>
               count_below a vs \<le> length vs div 2 - 1 \<and> count_above a vs \<le> length vs div 2 \<and>
               count_below b vs \<le> length vs div 2 \<and> count_above b vs \<le> length vs div 2 - 1))"
proof (intro conjI impI)
  from assms(7) have nf: "\<not> isfinite (series_mean G
      (map snd (filter (\<lambda>row. fst row = cc) (df_cleaned G))))"
    by (simp add: not_usable_iff)
  note fb = city_price_fallback [OF assms(6) nf, of r, folded assms(9)]
  {
    assume "isfinite d"
    with fb assemble_encoded [OF assms(1-5)]
    have "assemble G r = Inr (input_df_of r ct cf cd cc d)" by simp
    from predict_calls_model [OF this] obtain rest
      where "fst (predict G r) = ModelPredict (input_df_of r ct cf cd cc d) # rest" ..
    moreover have "input_df_of r ct cf cd cc d ! 8 = (''Price_per_sqm'', FloatCell d)"
      by (simp add: input_df_of_def)
    ultimately show "\<exists>df rest. fst (predict G r) = ModelPredict df # rest \<and>
               df ! 8 = (''Price_per_sqm'', FloatCell d)"
      by blast
  }
  {
    assume "isnan d \<or> \<not> isfinite d"
    then have "\<not> isfinite d" by (simp add: not_usable_iff)
    with fb assemble_encoded [OF assms(1-5)]
    have "assemble G r = Inl (HTTPException 500
        ''Cannot compute Price_per_sqm: invalid data in cleaned_data.csv'')" by simp
    from predict_assemble_Inl [OF this]
    show "predict G r =
              ([], Inl (HTTPException 500
                 (''Prediction failed: '' @
                  http_exception_str G 500
                    ''Cannot compute Price_per_sqm: invalid data in cleaned_data.csv'')))"
      by simp
  }
  {
    assume "vs = []"
    then show "d = NaN" unfolding assms(8,9) by (rule series_median_empty)
  }
  {
    assume "odd (length vs)"
    from series_median_odd [OF assms(8) this, of G]
    show "\<exists>m. d = float64_div G (float64_sum G [m]) 1 \<and> m \<in> set vs \<and>
               count_below m vs \<le> length vs div 2 \<and> count_above m vs \<le> length vs div 2"
      unfolding assms(9) .
  }
  {
    assume "even (length vs) \<and> vs \<noteq> []"
    then have "even (length vs)" and "vs \<noteq> []" by blast+
    from series_median_even [OF assms(8) this, of G]
    show "\<exists>a b. d = float64_div G (float64_sum G [a, b]) 2 \<and>
               a \<in> set vs \<and> b \<in> set vs \<and> flt_le a b \<and>
               count_below a vs \<le> length vs div 2 - 1 \<and> count_above a vs \<le> length vs div 2 \<and>
               count_below b vs \<le> length vs div 2 \<and> count_above b vs \<le> length vs div 2 - 1"
      unfolding assms(9) .
  }
qed

theorem median_fallback_witness:
  "isnan (series_mean (with_dataset [(0, Num 7), (1, NaN), (0, Num 1), (0, Num 3)]) [NaN]) \<and>
   (\<exists>df rest.
      fst (predict (with_dataset [(0, Num 7), (1, NaN), (0, Num 1), (0, Num 3)]) sample_input) =
        ModelPredict df # rest \<and>
      df ! 8 = (''Price_per_sqm'', FloatCell (Num 3))) \<and>
   (\<exists>m. Num 3 = exact_div (exact_sum [m]) 1 \<and> m \<in> set [Num 7, Num 1, Num 3] \<and>
      count_below m [Num 7, Num 1, Num 3] \<le> 1 \<and> count_above m [Num 7, Num 1, Num 3] \<le> 1) \<and>
   (\<exists>df rest.
      fst (predict (with_dataset [(0, Num 7), (1, NaN), (0, Num 1), (0, Num 3), (0, Num 4)])
             sample_input) = ModelPredict df # rest \<and>
      df ! 8 = (''Price_per_sqm'', FloatCell (Num (7 / 2)))) \<and>
   (\<exists>a b. Num (7 / 2) = exact_div (exact_sum [a, b]) 2 \<and>
      a \<in> set [Num 7, Num 1, Num 3, Num 4] \<and> b \<in> set [Num 7, Num 1, Num 3, Num 4] \<and>
      flt_le a b \<and>
      count_below a [Num 7, Num 1, Num 3, Num 4] \<le> 1 \<and> count_above a [Num 7, Num 1, Num 3, Num 4] \<le> 2 \<and>
      count_below b [Num 7, Num 1, Num 3, Num 4] \<le> 2 \<and> count_above b [Num 7, Num 1, Num 3, Num 4] \<le> 1) \<and>
   isnan (series_median (with_dataset [(1, NaN), (0, NaN)]) [NaN, NaN]) \<and>
   predict (with_dataset [(1, NaN), (0, NaN)]) sample_input =
     ([], Inl (HTTPException 500
        ''Prediction failed: 500: Cannot compute Price_per_sqm: invalid data in cleaned_data.csv''))"
proof -
  let ?G1 = "with_dataset [(0, Num 7), (1, NaN), (0, Num 1), (0, Num 3)]"
  let ?G3 = "with_dataset [(0, Num 7), (1, NaN), (0, Num 1), (0, Num 3), (0, Num 4)]"
  let ?G2 = "with_dataset [(1, NaN), (0, NaN)]"
  note f = with_dataset_fields
  have n1: "filter (\<lambda>row. fst row = 1) (df_cleaned ?G1) \<noteq> []"
    and n3: "filter (\<lambda>row. fst row = 1) (df_cleaned ?G3) \<noteq> []"
    and n2: "filter (\<lambda>row. fst row = 1) (df_cleaned ?G2) \<noteq> []"
    by (simp_all add: f)
  have nan: "series_mean G [NaN] = NaN" for G
    by (simp add: series_mean_unfold)
  have m1: "isnan (series_mean ?G1 (map snd (filter (\<lambda>row. fst row = 1) (df_cleaned ?G1)))) \<or>
      \<not> isfinite (series_mean ?G1 (map snd (filter (\<lambda>row. fst row = 1) (df_cleaned ?G1))))"
    and m3: "isnan (series_mean ?G3 (map snd (filter (\<lambda>row. fst row = 1) (df_cleaned ?G3)))) \<or>
      \<not> isfinite (series_mean ?G3 (map snd (filter (\<lambda>row. fst row = 1) (df_cleaned ?G3))))"
    and m2: "isnan (series_mean ?G2 (map snd (filter (\<lambda>row. fst row = 1) (df_cleaned ?G2)))) \<or>
      \<not> isfinite (series_mean ?G2 (map snd (filter (\<lambda>row. fst row = 1) (df_cleaned ?G2))))"
    by (simp_all add: f nan)
  have v1: "[Num 7, Num 1, Num 3] = filter (\<lambda>x. \<not> isnan x) (map snd (df_cleaned ?G1))"
    and v3: "[Num 7, Num 1, Num 3, Num 4] =
      filter (\<lambda>x. \<not> isnan x) (map snd (df_cleaned ?G3))"
    and v2: "[] = filter (\<lambda>x. \<not> isnan x) (map snd (df_cleaned ?G2))"
    by (simp_all add: f)
  have d1: "Num 3 = series_median ?G1 (map snd (df_cleaned ?G1))"
    and d3: "Num (7 / 2) = series_median ?G3 (map snd (df_cleaned ?G3))"
    and d2: "NaN = series_median ?G2 (map snd (df_cleaned ?G2))"
    by (simp_all add: f exact_median_values [OF f(4,5)])
  note t1 = median_fallback [OF sample_validate sample_input_encoded [OF f(1)] n1 m1 v1 d1,
      unfolded f sample_halves]
  note t3 = median_fallback [OF sample_validate sample_input_encoded [OF f(1)] n3 m3 v3 d3,
      unfolded f sample_halves]
  note t2 = median_fallback [OF sample_validate sample_input_encoded [OF f(1)] n2 m2 v2 d2,
      unfolded f]
  from t1 have a1: "\<exists>df rest. fst (predict ?G1 sample_input) = ModelPredict df # rest \<and>
      df ! 8 = (''Price_per_sqm'', FloatCell (Num 3))"
    by simp
  from t1 have b1: "\<exists>m. Num 3 = exact_div (exact_sum [m]) 1 \<and> m \<in> set [Num 7, Num 1, Num 3] \<and>
      count_below m [Num 7, Num 1, Num 3] \<le> 1 \<and> count_above m [Num 7, Num 1, Num 3] \<le> 1"
    by simp
  from t3 have a3: "\<exists>df rest. fst (predict ?G3 sample_input) = ModelPredict df # rest \<and>
      df ! 8 = (''Price_per_sqm'', FloatCell (Num (7 / 2)))"
    by simp
  from t3 have b3: "\<exists>a b. Num (7 / 2) = exact_div (exact_sum [a, b]) 2 \<and>
      a \<in> set [Num 7, Num 1, Num 3, Num 4] \<and> b \<in> set [Num 7, Num 1, Num 3, Num 4] \<and>
      flt_le a b \<and>
      count_below a [Num 7, Num 1, Num 3, Num 4] \<le> 1 \<and> count_above a [Num 7, Num 1, Num 3, Num 4] \<le> 2 \<and>
      count_below b [Num 7, Num 1, Num 3, Num 4] \<le> 2 \<and> count_above b [Num 7, Num 1, Num 3, Num 4] \<le> 1"
    by simp
  from t2 have c: "predict ?G2 sample_input =
     ([], Inl (HTTPException 500
        ''Prediction failed: 500: Cannot compute Price_per_sqm: invalid data in cleaned_data.csv''))"
    by (simp add: str_nat_500)
  have e: "isnan (series_median ?G2 [NaN, NaN])"
    using d2 by (simp add: f)
  from a1 b1 a3 b3 c e show ?thesis
    by (simp only: nan isnan.simps simp_thms)
qed

section \<open>The textual description\<close>




























end
